theory Spec2Isabelle
  imports Complex_Main
begin

section \<open>Numbers\<close>

text \<open>
  The calculator works on JavaScript numbers. They are modelled as exact real numbers:
  the constants \<open>0.07\<close>, \<open>0.05\<close>, \<open>0.1\<close> and \<open>0.5\<close> are the fractions they denote and
  \<open>+\<close>, \<open>-\<close>, \<open>*\<close> are exact, so every statement below is about the arithmetic the
  source writes down and not about the rounding of IEEE 754 doubles. Values that the
  source only ever produces as whole numbers (a result of \<open>Math.round\<close>, a year counter)
  are integers.
\<close>

type_synonym number = real

text \<open>\<open>Math.round\<close>: the nearest integer, a tie going towards positive infinity.\<close>

definition Math_round :: "number \<Rightarrow> int" where
  "Math_round x = \<lfloor>x + 1 / 2\<rfloor>"

text \<open>A bracket threshold is a finite number or the literal \<open>Infinity\<close>.\<close>

datatype threshold_value = Finite number | Infinity

text \<open>\<open>Math.min(income, t)\<close> for a finite \<open>income\<close>.\<close>

fun Math_min :: "number \<Rightarrow> threshold_value \<Rightarrow> number" where
  "Math_min x (Finite t) = min x t"
| "Math_min x Infinity = x"

section \<open>Configuration: \<open>APP_CONFIG\<close>\<close>

record bracket =
  threshold :: threshold_value
  rate :: number

definition single :: "bracket list" where
  "single =
    [\<lparr>threshold = Finite 11925, rate = 0.10\<rparr>,
     \<lparr>threshold = Finite 48475, rate = 0.12\<rparr>,
     \<lparr>threshold = Finite 103350, rate = 0.22\<rparr>,
     \<lparr>threshold = Finite 197300, rate = 0.24\<rparr>,
     \<lparr>threshold = Finite 250525, rate = 0.32\<rparr>,
     \<lparr>threshold = Finite 626350, rate = 0.35\<rparr>,
     \<lparr>threshold = Infinity, rate = 0.37\<rparr>]"

definition marriedJointly :: "bracket list" where
  "marriedJointly =
    [\<lparr>threshold = Finite 23850, rate = 0.10\<rparr>,
     \<lparr>threshold = Finite 96950, rate = 0.12\<rparr>,
     \<lparr>threshold = Finite 206700, rate = 0.22\<rparr>,
     \<lparr>threshold = Finite 394600, rate = 0.24\<rparr>,
     \<lparr>threshold = Finite 501050, rate = 0.32\<rparr>,
     \<lparr>threshold = Finite 751600, rate = 0.35\<rparr>,
     \<lparr>threshold = Infinity, rate = 0.37\<rparr>]"

definition marriedSeparately :: "bracket list" where
  "marriedSeparately =
    [\<lparr>threshold = Finite 11925, rate = 0.10\<rparr>,
     \<lparr>threshold = Finite 48475, rate = 0.12\<rparr>,
     \<lparr>threshold = Finite 103350, rate = 0.22\<rparr>,
     \<lparr>threshold = Finite 197300, rate = 0.24\<rparr>,
     \<lparr>threshold = Finite 250525, rate = 0.32\<rparr>,
     \<lparr>threshold = Finite 375800, rate = 0.35\<rparr>,
     \<lparr>threshold = Infinity, rate = 0.37\<rparr>]"

definition headOfHousehold :: "bracket list" where
  "headOfHousehold =
    [\<lparr>threshold = Finite 17000, rate = 0.10\<rparr>,
     \<lparr>threshold = Finite 64850, rate = 0.12\<rparr>,
     \<lparr>threshold = Finite 103350, rate = 0.22\<rparr>,
     \<lparr>threshold = Finite 197300, rate = 0.24\<rparr>,
     \<lparr>threshold = Finite 250500, rate = 0.32\<rparr>,
     \<lparr>threshold = Finite 626350, rate = 0.35\<rparr>,
     \<lparr>threshold = Infinity, rate = 0.37\<rparr>]"

text \<open>
  \<open>APP_CONFIG.TAX_BRACKETS\<close> is an object literal, and \<open>TAX_BRACKETS[filingStatus]\<close> is a
  JavaScript property read: it finds the four own properties, then the properties every
  object literal inherits from \<open>Object.prototype\<close> (functions, and for \<open>__proto__\<close> the
  prototype object itself), and is \<open>undefined\<close> for every other key.
\<close>

datatype property_value =
    Undefined
  | Brackets "bracket list"
  | Inherited

definition Object_prototype_keys :: "string list" where
  "Object_prototype_keys =
    [''constructor'', ''hasOwnProperty'', ''isPrototypeOf'', ''propertyIsEnumerable'',
     ''toLocaleString'', ''toString'', ''valueOf'', ''__proto__'',
     ''__defineGetter__'', ''__defineSetter__'', ''__lookupGetter__'', ''__lookupSetter__'']"

definition TAX_BRACKETS :: "string \<Rightarrow> property_value" where
  "TAX_BRACKETS filingStatus =
    (if filingStatus = ''single'' then Brackets single
     else if filingStatus = ''marriedJointly'' then Brackets marriedJointly
     else if filingStatus = ''marriedSeparately'' then Brackets marriedSeparately
     else if filingStatus = ''headOfHousehold'' then Brackets headOfHousehold
     else if filingStatus \<in> set Object_prototype_keys then Inherited
     else Undefined)"

definition recognized :: "string \<Rightarrow> bool" where
  "recognized filingStatus =
    (filingStatus \<in> set [''single'', ''marriedJointly'', ''marriedSeparately'', ''headOfHousehold''])"

definition WEALTH_SPENDING_RATE :: number where "WEALTH_SPENDING_RATE = 0.05"
definition AFTER_TAX_SPENDING_RATE :: number where "AFTER_TAX_SPENDING_RATE = 0.5"
definition DEFAULT_SAVINGS_RATE :: number where "DEFAULT_SAVINGS_RATE = 0.1"
definition INVESTMENT_RETURN_RATE :: number where "INVESTMENT_RETURN_RATE = 0.07"
definition WITHDRAWAL_RATE :: number where "WITHDRAWAL_RATE = 0.05"
definition PROJECTION_YEARS :: int where "PROJECTION_YEARS = 15"

section \<open>\<open>TaxCalculator\<close>\<close>

datatype js_error = TypeError

text \<open>
  The \<open>for (const bracket of brackets)\<close> loop of \<open>calculateFederalTax\<close>, with its two
  variables. \<open>previousThreshold\<close> becomes \<open>Infinity\<close> only after the last bracket of a
  table, where \<open>income <= previousThreshold\<close> leaves the loop.
\<close>

fun bracketLoop :: "number \<Rightarrow> bracket list \<Rightarrow> number \<Rightarrow> threshold_value \<Rightarrow> number" where
  "bracketLoop income [] totalTax previousThreshold = totalTax"
| "bracketLoop income (b # brackets) totalTax Infinity = totalTax"
| "bracketLoop income (b # brackets) totalTax (Finite p) =
     (if income \<le> p then totalTax
      else let taxableInThisBracket = Math_min income (threshold b) - p
           in bracketLoop income brackets (totalTax + taxableInThisBracket * rate b) (threshold b))"

text \<open>
  A value that is not iterable (anything read from \<open>Object.prototype\<close>) makes \<open>for ... of\<close>
  throw a \<open>TypeError\<close>.
\<close>

definition calculateFederalTax :: "number \<Rightarrow> string \<Rightarrow> js_error + int" where
  "calculateFederalTax income filingStatus =
    (if income \<le> 0 then Inr 0
     else case TAX_BRACKETS filingStatus of
       Undefined \<Rightarrow> Inr 0
     | Inherited \<Rightarrow> Inl TypeError
     | Brackets brackets \<Rightarrow> Inr (Math_round (bracketLoop income brackets 0 (Finite 0))))"

section \<open>\<open>FinancialCalculator\<close>\<close>

subsection \<open>\<open>calculate\<close>\<close>

text \<open>The form leaves \<open>wealthAccount\<close> as the empty string when the field is blank.\<close>

datatype wealth_field = Blank | Amount number

record inputs =
  preTaxIncome :: number
  wealthAccount :: wealth_field
  stateIncomeTax :: number
  filingStatus :: string

record calculations =
  federalTax :: int
  totalTax :: number
  afterTaxIncome :: number
  targetSpending :: int
  targetSaving :: int
  estimatedSaving :: int
  estimatedSpending :: int
  wealthAccount :: number

text \<open>
  \<open>calculate\<close>. A local variable carries the name of the source with a prime (the plain
  names are the fields of the result); \<open>targetSpending\<close> and \<open>targetSaving\<close> are
  assigned up to three times, and the index counts the assignments: 0 for the initial
  targets, 1 after the first \<open>if\<close>, 2 after the second.
\<close>

definition calculate :: "inputs \<Rightarrow> js_error + calculations" where
  "calculate i =
    (case calculateFederalTax (preTaxIncome i) (filingStatus i) of
       Inl e \<Rightarrow> Inl e
     | Inr federalTax' \<Rightarrow>
        (let totalTax' = of_int federalTax' + stateIncomeTax i;
             afterTaxIncome' = preTaxIncome i - totalTax';
             wealthAccount' = (case inputs.wealthAccount i of Blank \<Rightarrow> 0 | Amount w \<Rightarrow> w);
             estimatedSaving' = preTaxIncome i * DEFAULT_SAVINGS_RATE;
             estimatedSpending' = afterTaxIncome' - estimatedSaving';
             targetSpending0 =
               AFTER_TAX_SPENDING_RATE * afterTaxIncome' + WEALTH_SPENDING_RATE * wealthAccount';
             targetSaving0 = max 0 (afterTaxIncome' - targetSpending0);
             (targetSpending1, targetSaving1) =
               (if targetSaving0 < estimatedSaving'
                then (afterTaxIncome' - estimatedSaving', estimatedSaving')
                else (targetSpending0, targetSaving0));
             (targetSpending2, targetSaving2) =
               (if targetSpending1 > estimatedSpending'
                then (estimatedSpending', afterTaxIncome' - estimatedSpending')
                else (targetSpending1, targetSaving1))
         in Inr \<lparr>federalTax = federalTax',
                 totalTax = totalTax',
                 afterTaxIncome = afterTaxIncome',
                 targetSpending = Math_round targetSpending2,
                 targetSaving = Math_round targetSaving2,
                 estimatedSaving = Math_round estimatedSaving',
                 estimatedSpending = Math_round estimatedSpending',
                 wealthAccount = wealthAccount'\<rparr>))"

subsection \<open>\<open>calculateAssetEndurance\<close>\<close>

function calculateAssetEndurance :: "number \<Rightarrow> number \<Rightarrow> int \<Rightarrow> int" where
  "calculateAssetEndurance annualSpending assetBase yearsElapsed =
    (if annualSpending \<le> assetBase * INVESTMENT_RETURN_RATE then - 1
     else if assetBase - annualSpending \<le> 0 then yearsElapsed + 1
     else let remainingAssets = (assetBase - annualSpending) * (1 + INVESTMENT_RETURN_RATE)
          in calculateAssetEndurance annualSpending remainingAssets (yearsElapsed + 1))"
  by pat_completeness auto

text \<open>
  The recursion is not structural. While neither base case holds, \<open>assetBase\<close> stays
  above \<open>annualSpending\<close>, the shortfall \<open>annualSpending - assetBase * 0.07\<close> is positive
  and does not shrink, and the remainder \<open>assetBase - annualSpending\<close> loses at least one
  shortfall per call: the number of shortfalls that fit into the remainder, rounded up,
  is a measure.
\<close>

definition enduranceMeasure :: "number \<Rightarrow> number \<Rightarrow> nat" where
  "enduranceMeasure s a =
     (if a * INVESTMENT_RETURN_RATE < s \<and> 0 < a - s
      then nat \<lceil>(a - s) / (s - a * INVESTMENT_RETURN_RATE)\<rceil> else 0)"

lemma enduranceMeasure_decreases:
  assumes "\<not> s \<le> a * INVESTMENT_RETURN_RATE" "\<not> a - s \<le> 0"
  shows "enduranceMeasure s ((a - s) * (1 + INVESTMENT_RETURN_RATE)) < enduranceMeasure s a"
proof -
  define d where "d = s - a * (7/100)"
  define a' where "a' = (a - s) * (107/100)"
  define d' where "d' = s - a' * (7/100)"
  have d: "0 < d" and as: "0 < a - s" using assms by (simp_all add: d_def INVESTMENT_RETURN_RATE_def)
  have s: "0 < s" using d as by (simp add: d_def)
  have a'_lin: "a' = (107/100) * a - (107/100) * s"
    by (simp add: a'_def field_simps)
  have d'_lin: "d' = s - (749/10000) * a + (749/10000) * s"
    unfolding d'_def a'_lin by (simp add: field_simps)
  have dd: "d \<le> d'" using s d unfolding d'_lin d_def by linarith
  have q: "0 < (a - s) / d" using d as by simp
  have m: "enduranceMeasure s a = nat \<lceil>(a - s) / d\<rceil>"
    using d as by (simp add: enduranceMeasure_def d_def INVESTMENT_RETURN_RATE_def)
  have pos: "0 < \<lceil>(a - s) / d\<rceil>" using q by simp
  show ?thesis
  proof (cases "0 < a' - s")
    case False
    then have "enduranceMeasure s a' = 0" by (simp add: enduranceMeasure_def)
    with m pos show ?thesis by (simp add: a'_def INVESTMENT_RETURN_RATE_def)
  next
    case True
    have "(a' - s) / d' \<le> (a' - s) / d"
      using True d dd by (simp add: frac_le)
    also have "a' - s \<le> (a - s) - d" using s unfolding a'_lin d_def by linarith
    then have "(a' - s) / d \<le> ((a - s) - d) / d"
      using d by (simp add: divide_right_mono)
    also have "((a - s) - d) / d = (a - s) / d - 1"
      using d by (simp add: diff_divide_distrib)
    finally have le: "(a' - s) / d' \<le> (a - s) / d - 1" .
    have "\<lceil>(a' - s) / d'\<rceil> \<le> \<lceil>(a - s) / d - 1\<rceil>"
      using le by (rule ceiling_mono)
    also have "\<dots> = \<lceil>(a - s) / d\<rceil> - 1" by simp
    finally have c: "\<lceil>(a' - s) / d'\<rceil> \<le> \<lceil>(a - s) / d\<rceil> - 1" .
    have "enduranceMeasure s a' = nat \<lceil>(a' - s) / d'\<rceil>"
      using True d dd by (simp add: enduranceMeasure_def INVESTMENT_RETURN_RATE_def d'_def)
    with c m pos show ?thesis by (simp add: a'_def INVESTMENT_RETURN_RATE_def)
  qed
qed

termination calculateAssetEndurance
  by (relation "measure (\<lambda>(s, a, y). enduranceMeasure s a)")
     (simp_all add: enduranceMeasure_decreases)

subsection \<open>\<open>calculateProjection\<close> and \<open>calculateFifteenYearValue\<close>\<close>

text \<open>
  The \<open>for\<close> loop of \<open>calculateProjection\<close>: the counter \<open>year\<close>, the running
  \<open>balance\<close> and the array \<open>projection\<close>, to which \<open>push\<close> appends.
\<close>

function projectionLoop :: "number \<Rightarrow> int \<Rightarrow> int \<Rightarrow> number \<Rightarrow> int list \<Rightarrow> int list" where
  "projectionLoop annualSaving years year balance projection =
    (if year \<le> years
     then let balance1 = balance + annualSaving;
              balance2 = balance1 * (1 + INVESTMENT_RETURN_RATE)
          in projectionLoop annualSaving years (year + 1) balance2
               (projection @ [Math_round balance2])
     else projection)"
  by pat_completeness auto
termination
  by (relation "measure (\<lambda>(annualSaving, years, year, balance, projection). nat (years + 1 - year))")
     auto

definition calculateProjection :: "number \<Rightarrow> int \<Rightarrow> number \<Rightarrow> int list" where
  "calculateProjection annualSaving years startingBalance =
     projectionLoop annualSaving years 1 startingBalance []"

function fifteenYearLoop :: "number \<Rightarrow> int \<Rightarrow> number \<Rightarrow> number" where
  "fifteenYearLoop annualSaving i balance =
    (if i \<le> PROJECTION_YEARS
     then let balance1 = balance + annualSaving;
              balance2 = balance1 * (1 + INVESTMENT_RETURN_RATE)
          in fifteenYearLoop annualSaving (i + 1) balance2
     else balance)"
  by pat_completeness auto
termination
  by (relation "measure (\<lambda>(annualSaving, i, balance). nat (PROJECTION_YEARS + 1 - i))") auto

definition calculateFifteenYearValue :: "number \<Rightarrow> number \<Rightarrow> int" where
  "calculateFifteenYearValue annualSaving startingBalance =
     Math_round (fifteenYearLoop annualSaving 1 startingBalance)"

subsection \<open>\<open>calculateCrossoverPoint\<close> and \<open>calculateAllCrossoverPoints\<close>\<close>

text \<open>
  The loop of \<open>calculateCrossoverPoint\<close> over the years 1 to 50. Its state is the counter,
  \<open>assets\<close>, \<open>crossoverYear\<close> and the array \<open>projectionData\<close>; the function returns the last
  two. The loop is declared before the records whose fields carry the same names, so the
  entries of the array are built by the function \<open>entry\<close> it is given;
  \<open>calculateCrossoverPoint\<close> passes \<open>yearEntry\<close>, the object literal of the source, and
  names its first parameter \<open>earned\<close> because \<open>earnedIncome\<close> is a field by then.
\<close>

function crossoverLoop ::
  "(int \<Rightarrow> number \<Rightarrow> number \<Rightarrow> number \<Rightarrow> 'r) \<Rightarrow> number \<Rightarrow> number \<Rightarrow>
     int \<Rightarrow> number \<Rightarrow> int \<Rightarrow> 'r list \<Rightarrow> int \<times> 'r list" where
  "crossoverLoop entry earnedIncome annualSavings year assets crossoverYear projectionData =
    (if year \<le> 50
     then let assets1 = assets * (1 + INVESTMENT_RETURN_RATE) + annualSavings;
              passiveIncome = assets1 * WITHDRAWAL_RATE
          in crossoverLoop entry earnedIncome annualSavings (year + 1) assets1
               (if passiveIncome \<ge> earnedIncome \<and> crossoverYear = - 1 then year else crossoverYear)
               (projectionData @ [entry year assets1 passiveIncome earnedIncome])
     else (crossoverYear, projectionData))"
  by pat_completeness auto
termination
  by (relation "measure (\<lambda>(entry, earnedIncome, annualSavings, year, rest). nat (51 - year))") auto

declare crossoverLoop.simps [simp del]

record yearRecord =
  year :: int
  assets :: number
  passiveIncome :: number
  earnedIncome :: number

record crossover =
  years :: int
  projectionData :: "yearRecord list"

definition yearEntry :: "int \<Rightarrow> number \<Rightarrow> number \<Rightarrow> number \<Rightarrow> yearRecord" where
  "yearEntry y a p e = \<lparr>year = y, assets = a, passiveIncome = p, earnedIncome = e\<rparr>"

definition calculateCrossoverPoint :: "number \<Rightarrow> number \<Rightarrow> number \<Rightarrow> crossover" where
  "calculateCrossoverPoint earned currentAssets annualSavings =
    (let startingPassiveIncome = currentAssets * WITHDRAWAL_RATE;
         crossoverYear0 = (if startingPassiveIncome \<ge> earned then 0 else - 1);
         data0 = [yearEntry 0 currentAssets startingPassiveIncome earned];
         (crossoverYear, data) =
            crossoverLoop yearEntry earned annualSavings 1 currentAssets crossoverYear0 data0
     in \<lparr>years = crossoverYear, projectionData = data\<rparr>)"

record crossoverPoints =
  worker :: crossover
  investor :: crossover

definition calculateAllCrossoverPoints :: "calculations \<Rightarrow> crossoverPoints" where
  "calculateAllCrossoverPoints c =
    \<lparr>worker = calculateCrossoverPoint (afterTaxIncome c) (wealthAccount c)
                (of_int (estimatedSaving c)),
     investor = calculateCrossoverPoint (afterTaxIncome c) (wealthAccount c)
                (of_int (targetSaving c))\<rparr>"

section \<open>The specification's reading of the engines\<close>

subsection \<open>Federal tax\<close>

text \<open>
  Rounding to the nearest whole unit as the specification words it: a tie moves away
  from zero.
\<close>

definition roundHalfAwayFromZero :: "number \<Rightarrow> int" where
  "roundHalfAwayFromZero x = (if x < 0 then - \<lfloor>- x + 1 / 2\<rfloor> else \<lfloor>x + 1 / 2\<rfloor>)"

text \<open>
  The marginal-bracket sum as the specification words it. \<open>portion\<close> is the part of the
  income that lies between the previous threshold and \<open>min(income, thisThreshold)\<close>: it
  is empty once the income is covered by the previous threshold. The sum pairs every
  bracket with the threshold before it (0 before the first) and adds up portion times
  marginal rate.
\<close>

fun portion :: "number \<Rightarrow> threshold_value \<Rightarrow> threshold_value \<Rightarrow> number" where
  "portion income Infinity t = 0"
| "portion income (Finite p) t = (if income \<le> p then 0 else Math_min income t - p)"

definition marginalBracketSum :: "number \<Rightarrow> bracket list \<Rightarrow> number" where
  "marginalBracketSum income brackets =
     sum_list (map (\<lambda>(previous, b). portion income previous (threshold b) * rate b)
                   (zip (Finite 0 # map threshold brackets) brackets))"

text \<open>
  A table is in ascending order from a lower bound when every finite threshold exceeds the
  one before it, rates are not negative, and nothing follows an unbounded bracket.
\<close>

fun ascendingFrom :: "threshold_value \<Rightarrow> bracket list \<Rightarrow> bool" where
  "ascendingFrom previous [] = True"
| "ascendingFrom Infinity (b # brackets) = False"
| "ascendingFrom (Finite p) (b # brackets) =
     ((case threshold b of Finite t \<Rightarrow> p < t | Infinity \<Rightarrow> True) \<and> 0 \<le> rate b
      \<and> ascendingFrom (threshold b) brackets)"

text \<open>The sum over a tail of the table, from the threshold before it.\<close>

definition sumFrom :: "threshold_value \<Rightarrow> number \<Rightarrow> bracket list \<Rightarrow> number" where
  "sumFrom previous income brackets =
     sum_list (map (\<lambda>(previous, b). portion income previous (threshold b) * rate b)
                   (zip (previous # map threshold brackets) brackets))"

subsection \<open>Valid inputs\<close>

text \<open>
  The valid inputs of the specification: a positive income, a wealth account that is
  blank (read as 0) or not negative, a state tax between 0 and the income, a recognized
  filing status. (\<open>FormValidator\<close> is stricter: it turns a blank wealth account away.)
\<close>

definition validInputs :: "inputs \<Rightarrow> bool" where
  "validInputs i =
    (0 < preTaxIncome i
     \<and> (case inputs.wealthAccount i of Blank \<Rightarrow> True | Amount w \<Rightarrow> 0 \<le> w)
     \<and> 0 \<le> stateIncomeTax i \<and> stateIncomeTax i \<le> preTaxIncome i
     \<and> recognized (filingStatus i))"

subsection \<open>Asset endurance\<close>

text \<open>
  The recurrence of the specification: \<open>A\<^sub>0 = assetBase\<close> and
  \<open>A\<^sub>k = (A\<^sub>k\<^sub>-\<^sub>1 - annualSpending) * 1.07\<close>.
\<close>

definition assetsAfter :: "number \<Rightarrow> number \<Rightarrow> nat \<Rightarrow> number" where
  "assetsAfter annualSpending assetBase k = ((\<lambda>A. (A - annualSpending) * 1.07) ^^ k) assetBase"

subsection \<open>The two compounding conventions\<close>

text \<open>
  One year of the projection engine: the contribution is added, then the balance grows.
  One year of the crossover engine: the assets grow, then the contribution is added.
\<close>

definition contributeThenGrow :: "number \<Rightarrow> number \<Rightarrow> number" where
  "contributeThenGrow s b = (b + s) * 1.07"

definition growThenContribute :: "number \<Rightarrow> number \<Rightarrow> number" where
  "growThenContribute s b = b * 1.07 + s"

text \<open>The assets of the crossover recurrence in year \<open>y\<close>, and its passive income.\<close>

definition assetsInYear :: "number \<Rightarrow> number \<Rightarrow> nat \<Rightarrow> number" where
  "assetsInYear currentAssets annualSavings y = (growThenContribute annualSavings ^^ y) currentAssets"

definition crosses :: "number \<Rightarrow> number \<Rightarrow> number \<Rightarrow> nat \<Rightarrow> bool" where
  "crosses earned currentAssets annualSavings y =
     (assetsInYear currentAssets annualSavings y * 0.05 \<ge> earned)"

text \<open>
  The order on crossover years in which the sentinel -1 (never) comes after every year.
\<close>

definition noLaterThan :: "int \<Rightarrow> int \<Rightarrow> bool" where
  "noLaterThan a b = (b = - 1 \<or> (a \<noteq> - 1 \<and> a \<le> b))"

section \<open>Properties of \<open>TaxCalculator\<close>\<close>

lemma sumFrom_Nil: "sumFrom previous income [] = 0"
  by (simp add: sumFrom_def)

lemma sumFrom_Cons:
  "sumFrom previous income (b # brackets) =
     portion income previous (threshold b) * rate b + sumFrom (threshold b) income brackets"
  by (simp add: sumFrom_def)

lemma sumFrom_covered:
  "ascendingFrom (Finite p) brackets \<Longrightarrow> income \<le> p \<Longrightarrow> sumFrom (Finite p) income brackets = 0"
proof (induction brackets arbitrary: p)
  case Nil
  show ?case by (simp add: sumFrom_Nil)
next
  case (Cons b brackets)
  show ?case
  proof (cases "threshold b")
    case (Finite t)
    with Cons.prems have "ascendingFrom (Finite t) brackets" "income \<le> t" by auto
    then have "sumFrom (Finite t) income brackets = 0" by (rule Cons.IH)
    with Finite Cons.prems show ?thesis by (simp add: sumFrom_Cons)
  next
    case Infinity
    with Cons.prems have "brackets = []" by (cases brackets) auto
    with Infinity Cons.prems show ?thesis by (simp add: sumFrom_Cons sumFrom_Nil)
  qed
qed

lemma sumFrom_nonneg:
  "ascendingFrom previous brackets \<Longrightarrow> 0 \<le> sumFrom previous income brackets"
proof (induction brackets arbitrary: previous)
  case Nil
  show ?case by (simp add: sumFrom_Nil)
next
  case (Cons b brackets)
  from Cons.prems obtain p where p: "previous = Finite p" by (cases previous) auto
  from Cons.prems p have r: "0 \<le> rate b" and rest: "ascendingFrom (threshold b) brackets"
    by auto
  have "0 \<le> portion income previous (threshold b)"
    using Cons.prems p by (cases "threshold b") auto
  with r have "0 \<le> portion income previous (threshold b) * rate b" by simp
  moreover have "0 \<le> sumFrom (threshold b) income brackets" using rest by (rule Cons.IH)
  ultimately show ?case by (simp add: sumFrom_Cons)
qed

lemma bracketLoop_sumFrom:
  "ascendingFrom previous brackets \<Longrightarrow>
     bracketLoop income brackets acc previous = acc + sumFrom previous income brackets"
proof (induction brackets arbitrary: previous acc)
  case Nil
  show ?case by (simp add: sumFrom_Nil)
next
  case (Cons b brackets)
  from Cons.prems obtain p where p: "previous = Finite p" by (cases previous) auto
  from Cons.prems p have rest: "ascendingFrom (threshold b) brackets" by auto
  show ?case
  proof (cases "income \<le> p")
    case True
    with Cons.prems p have "sumFrom (Finite p) income (b # brackets) = 0"
      by (intro sumFrom_covered) auto
    with True p show ?thesis by simp
  next
    case False
    with p rest show ?thesis by (simp add: Cons.IH sumFrom_Cons Let_def)
  qed
qed

lemma tables_ascending:
  "ascendingFrom (Finite 0) single" "ascendingFrom (Finite 0) marriedJointly"
  "ascendingFrom (Finite 0) marriedSeparately" "ascendingFrom (Finite 0) headOfHousehold"
  by (simp_all add: single_def marriedJointly_def marriedSeparately_def headOfHousehold_def)

lemma recognized_cases:
  "recognized status \<Longrightarrow>
     TAX_BRACKETS status = Brackets single \<or> TAX_BRACKETS status = Brackets marriedJointly \<or>
     TAX_BRACKETS status = Brackets marriedSeparately \<or> TAX_BRACKETS status = Brackets headOfHousehold"
  by (auto simp add: recognized_def TAX_BRACKETS_def)

lemma recognized_ascending:
  assumes "recognized status"
  shows "\<exists>brackets. TAX_BRACKETS status = Brackets brackets \<and> ascendingFrom (Finite 0) brackets"
  using recognized_cases [OF assms] tables_ascending by auto

lemma roundHalfAwayFromZero_nonneg: "0 \<le> x \<Longrightarrow> roundHalfAwayFromZero x = Math_round x"
  by (simp add: roundHalfAwayFromZero_def Math_round_def)

lemma calculateFederalTax_nonpositive: "income \<le> 0 \<Longrightarrow> calculateFederalTax income status = Inr 0"
  by (simp add: calculateFederalTax_def)

lemma calculateFederalTax_undefined:
  "TAX_BRACKETS status = Undefined \<Longrightarrow> calculateFederalTax income status = Inr 0"
  by (simp add: calculateFederalTax_def)

lemma calculateFederalTax_recognized:
  assumes "recognized status"
  shows "\<exists>tax. calculateFederalTax income status = Inr tax"
  using recognized_cases [OF assms] by (auto simp add: calculateFederalTax_def)

text \<open>
  Claim C2. For a positive income and a recognized filing status, \<open>calculateFederalTax\<close>
  returns the marginal-bracket sum over that status's table, which is in ascending
  threshold order, rounded to the nearest whole unit.
\<close>

theorem calculateFederalTax_marginal_sum:
  assumes "0 < income" and "recognized status"
  shows "\<exists>brackets. TAX_BRACKETS status = Brackets brackets
           \<and> ascendingFrom (Finite 0) brackets
           \<and> calculateFederalTax income status
               = Inr (roundHalfAwayFromZero (marginalBracketSum income brackets))"
proof -
  from recognized_ascending [OF assms(2)] obtain brackets
    where t: "TAX_BRACKETS status = Brackets brackets"
      and asc: "ascendingFrom (Finite 0) brackets" by blast
  have m: "marginalBracketSum income brackets = sumFrom (Finite 0) income brackets"
    by (simp add: marginalBracketSum_def sumFrom_def)
  have loop: "bracketLoop income brackets 0 (Finite 0) = marginalBracketSum income brackets"
    using bracketLoop_sumFrom [OF asc, of income 0] m by simp
  have "0 \<le> marginalBracketSum income brackets"
    using sumFrom_nonneg [OF asc, of income] m by simp
  then have "roundHalfAwayFromZero (marginalBracketSum income brackets)
      = Math_round (marginalBracketSum income brackets)"
    by (rule roundHalfAwayFromZero_nonneg)
  with assms(1) t loop asc show ?thesis
    by (simp add: calculateFederalTax_def)
qed

theorem calculateFederalTax_marginal_sum_witness:
  "TAX_BRACKETS ''single'' = Brackets single \<and>
   calculateFederalTax 100000 ''single'' = Inr (roundHalfAwayFromZero (marginalBracketSum 100000 single)) \<and>
   marginalBracketSum 100000 single = 16914"
  using calculateFederalTax_marginal_sum [of 100000 "''single''"]
  by (auto simp add: recognized_def TAX_BRACKETS_def marginalBracketSum_def single_def)

text \<open>
  Claim C8. The guard of \<open>calculateFederalTax\<close> tests the property read for truthiness. A
  key that \<open>Object.prototype\<close> defines is not a recognized filing status, yet the read
  is truthy, the guard lets it pass, and iterating the value throws: no 0 is returned.
  (For an income that is not positive, and for a key with no property at all, the result
  is 0: \<open>calculateFederalTax_nonpositive\<close>, \<open>calculateFederalTax_undefined\<close>.)
\<close>

theorem calculateFederalTax_inherited_key:
  "\<not> recognized ''constructor'' \<and> calculateFederalTax 50000 ''constructor'' = Inl TypeError"
  by (simp add: recognized_def calculateFederalTax_def TAX_BRACKETS_def Object_prototype_keys_def)



section \<open>Properties of \<open>FinancialCalculator.calculate\<close>\<close>

lemma Math_round_mono: "x \<le> y \<Longrightarrow> Math_round x \<le> Math_round y"
  by (simp add: Math_round_def floor_mono)

text \<open>
  The two corrections on the unrounded values: whatever the initial targets, after both
  \<open>if\<close>s the saving is at least the worker's and the spending at most the worker's.
\<close>

lemma corrections_order:
  fixes ati es sp0 :: number
  defines "esp \<equiv> ati - es"
  defines "sv0 \<equiv> max 0 (ati - sp0)"
  defines "p1 \<equiv> (if sv0 < es then (ati - es, es) else (sp0, sv0))"
  defines "p2 \<equiv> (if fst p1 > esp then (esp, ati - esp) else p1)"
  shows "es \<le> snd p2 \<and> fst p2 \<le> esp"
  unfolding p2_def p1_def sv0_def esp_def by auto

text \<open>
  Claim C1. For every valid input \<open>calculate\<close> returns a record, and on its rounded fields
  the investor saves at least what the worker saves and spends at most what the worker
  spends.
\<close>

theorem calculate_investor_not_worse:
  assumes "validInputs i"
  shows "\<exists>c. calculate i = Inr c
           \<and> estimatedSaving c \<le> targetSaving c \<and> targetSpending c \<le> estimatedSpending c"
proof -
  from assms have "recognized (filingStatus i)" by (simp add: validInputs_def)
  then obtain tax where tax: "calculateFederalTax (preTaxIncome i) (filingStatus i) = Inr tax"
    using calculateFederalTax_recognized by blast
  define ati where "ati = preTaxIncome i - (of_int tax + stateIncomeTax i)"
  define es where "es = preTaxIncome i * DEFAULT_SAVINGS_RATE"
  define w where "w = (case inputs.wealthAccount i of Blank \<Rightarrow> 0 | Amount w \<Rightarrow> w)"
  define sp0 where "sp0 = AFTER_TAX_SPENDING_RATE * ati + WEALTH_SPENDING_RATE * w"
  define p1 where "p1 = (if max 0 (ati - sp0) < es then (ati - es, es) else (sp0, max 0 (ati - sp0)))"
  define p2 where "p2 = (if fst p1 > ati - es then (ati - es, ati - (ati - es)) else p1)"
  have ord: "es \<le> snd p2 \<and> fst p2 \<le> ati - es"
    unfolding p2_def p1_def by (rule corrections_order)
  have c: "calculate i = Inr \<lparr>federalTax = tax, totalTax = of_int tax + stateIncomeTax i,
      afterTaxIncome = ati, targetSpending = Math_round (fst p2), targetSaving = Math_round (snd p2),
      estimatedSaving = Math_round es, estimatedSpending = Math_round (ati - es),
      wealthAccount = w\<rparr>"
    unfolding calculate_def tax p2_def p1_def sp0_def w_def es_def ati_def
    by (simp add: Let_def split: prod.splits)
  from ord show ?thesis unfolding c by (simp add: Math_round_mono)
qed

theorem calculate_investor_not_worse_witness:
  "validInputs \<lparr>preTaxIncome = 100000, inputs.wealthAccount = Amount 2000000, stateIncomeTax = 3000, filingStatus = ''single''\<rparr>
   \<and> (\<exists>c. calculate \<lparr>preTaxIncome = 100000, inputs.wealthAccount = Amount 2000000, stateIncomeTax = 3000, filingStatus = ''single''\<rparr> = Inr c
           \<and> estimatedSaving c \<le> targetSaving c \<and> targetSpending c \<le> estimatedSpending c)"
proof -
  have v: "validInputs \<lparr>preTaxIncome = 100000, inputs.wealthAccount = Amount 2000000, stateIncomeTax = 3000, filingStatus = ''single''\<rparr>"
    by (simp add: validInputs_def recognized_def)
  from v calculate_investor_not_worse [OF v] show ?thesis by simp
qed

section \<open>Properties of \<open>calculateAssetEndurance\<close>\<close>

lemma assetsAfter_0: "assetsAfter s a 0 = a"
  by (simp add: assetsAfter_def)

lemma assetsAfter_Suc: "assetsAfter s a (Suc k) = assetsAfter s ((a - s) * 1.07) k"
  by (simp only: assetsAfter_def funpow_Suc_right o_apply)

lemma remaining_eq: "(a - s) * (1 + INVESTMENT_RETURN_RATE) = (a - s) * 1.07"
  by (simp add: INVESTMENT_RETURN_RATE_def)


lemma remaining_less:
  assumes "\<not> s \<le> a * INVESTMENT_RETURN_RATE" "\<not> a - s \<le> 0"
  shows "(a - s) * (1 + INVESTMENT_RETURN_RATE) < a"
  using assms by (simp add: INVESTMENT_RETURN_RATE_def field_simps)





text \<open>
  From every asset base a base case is reached, after at most \<open>enduranceMeasure\<close> steps
  of the recurrence.
\<close>

lemma endurance_steps:
  "\<exists>n \<le> enduranceMeasure s a.
      s \<le> assetsAfter s a n * INVESTMENT_RETURN_RATE \<or> assetsAfter s a n - s \<le> 0"
proof (induction "enduranceMeasure s a" arbitrary: a rule: less_induct)
  case less
  show ?case
  proof (cases "s \<le> a * INVESTMENT_RETURN_RATE \<or> a - s \<le> 0")
    case True
    then have "0 \<le> enduranceMeasure s a \<and>
        (s \<le> assetsAfter s a 0 * INVESTMENT_RETURN_RATE \<or> assetsAfter s a 0 - s \<le> 0)"
      by (simp add: assetsAfter_0)
    then show ?thesis by blast
  next
    case False
    then have nb: "\<not> s \<le> a * INVESTMENT_RETURN_RATE" "\<not> a - s \<le> 0" by simp_all
    define a' where "a' = (a - s) * 1.07"
    have "enduranceMeasure s ((a - s) * (1 + INVESTMENT_RETURN_RATE)) < enduranceMeasure s a"
      using nb by (rule enduranceMeasure_decreases)
    then have dec: "enduranceMeasure s a' < enduranceMeasure s a"
      by (simp add: a'_def remaining_eq)
    from less [OF dec] obtain n where n: "n \<le> enduranceMeasure s a'"
      "s \<le> assetsAfter s a' n * INVESTMENT_RETURN_RATE \<or> assetsAfter s a' n - s \<le> 0"
      by blast
    have "Suc n \<le> enduranceMeasure s a \<and>
        (s \<le> assetsAfter s a (Suc n) * INVESTMENT_RETURN_RATE \<or> assetsAfter s a (Suc n) - s \<le> 0)"
      using n dec by (simp add: assetsAfter_Suc a'_def)
    then show ?thesis by blast
  qed
qed

text \<open>
  Claim C5. The recursion of \<open>calculateAssetEndurance\<close> terminates on every input: its
  equation holds without any condition on the arguments, a call that meets neither base case
  recurses on a strictly smaller asset base, and along the recurrence a base case is reached
  after finitely many steps, at most \<open>enduranceMeasure annualSpending assetBase\<close> of them.
\<close>

theorem calculateAssetEndurance_terminates:
  "calculateAssetEndurance annualSpending assetBase yearsElapsed =
     (if annualSpending \<le> assetBase * INVESTMENT_RETURN_RATE then - 1
      else if assetBase - annualSpending \<le> 0 then yearsElapsed + 1
      else calculateAssetEndurance annualSpending
             ((assetBase - annualSpending) * (1 + INVESTMENT_RETURN_RATE)) (yearsElapsed + 1))
   \<and> (\<not> annualSpending \<le> assetBase * INVESTMENT_RETURN_RATE \<and> \<not> assetBase - annualSpending \<le> 0
        \<longrightarrow> (assetBase - annualSpending) * (1 + INVESTMENT_RETURN_RATE) < assetBase)
   \<and> (\<exists>n \<le> enduranceMeasure annualSpending assetBase.
         annualSpending \<le> assetsAfter annualSpending assetBase n * INVESTMENT_RETURN_RATE
         \<or> assetsAfter annualSpending assetBase n - annualSpending \<le> 0)"
proof -
  have eq: "calculateAssetEndurance annualSpending assetBase yearsElapsed =
     (if annualSpending \<le> assetBase * INVESTMENT_RETURN_RATE then - 1
      else if assetBase - annualSpending \<le> 0 then yearsElapsed + 1
      else calculateAssetEndurance annualSpending
             ((assetBase - annualSpending) * (1 + INVESTMENT_RETURN_RATE)) (yearsElapsed + 1))"
    by (simp add: Let_def)
  have less: "\<not> annualSpending \<le> assetBase * INVESTMENT_RETURN_RATE \<and> \<not> assetBase - annualSpending \<le> 0
        \<longrightarrow> (assetBase - annualSpending) * (1 + INVESTMENT_RETURN_RATE) < assetBase"
    using remaining_less by blast
  from eq less endurance_steps [of annualSpending assetBase] show ?thesis by blast
qed


theorem calculateAssetEndurance_terminates_witness:
  "calculateAssetEndurance 100000 500000 0 = calculateAssetEndurance 100000 428000 1
   \<and> (500000 - 100000) * (1 + INVESTMENT_RETURN_RATE) < 500000
   \<and> (\<exists>n \<le> enduranceMeasure 100000 500000.
         100000 \<le> assetsAfter 100000 500000 n * INVESTMENT_RETURN_RATE
         \<or> assetsAfter 100000 500000 n - 100000 \<le> 0)"
proof -
  have nb: "\<not> (100000::number) \<le> 500000 * INVESTMENT_RETURN_RATE \<and> \<not> (500000::number) - 100000 \<le> 0"
    by (simp add: INVESTMENT_RETURN_RATE_def)
  have r: "((500000::number) - 100000) * (1 + INVESTMENT_RETURN_RATE) = 428000"
    by (simp add: INVESTMENT_RETURN_RATE_def)
  have t: "calculateAssetEndurance 100000 500000 0 =
     (if (100000::number) \<le> 500000 * INVESTMENT_RETURN_RATE then - 1
      else if (500000::number) - 100000 \<le> 0 then 0 + 1
      else calculateAssetEndurance 100000
             ((500000 - 100000) * (1 + INVESTMENT_RETURN_RATE)) (0 + 1))
   \<and> (\<not> (100000::number) \<le> 500000 * INVESTMENT_RETURN_RATE \<and> \<not> (500000::number) - 100000 \<le> 0
        \<longrightarrow> (500000 - 100000) * (1 + INVESTMENT_RETURN_RATE) < (500000::number))
   \<and> (\<exists>n \<le> enduranceMeasure 100000 500000.
         100000 \<le> assetsAfter 100000 500000 n * INVESTMENT_RETURN_RATE
         \<or> assetsAfter 100000 500000 n - 100000 \<le> 0)"
    by (rule calculateAssetEndurance_terminates)
  from t nb have "calculateAssetEndurance 100000 500000 0 =
      calculateAssetEndurance 100000 ((500000 - 100000) * (1 + INVESTMENT_RETURN_RATE)) (0 + 1)"
    by presburger
  then have one: "calculateAssetEndurance 100000 500000 0 = calculateAssetEndurance 100000 428000 1"
    by (simp only: r) simp
  from t nb have two: "(500000 - 100000) * (1 + INVESTMENT_RETURN_RATE) < (500000::number)"
    by blast
  from t have three: "\<exists>n \<le> enduranceMeasure 100000 500000.
         100000 \<le> assetsAfter 100000 500000 n * INVESTMENT_RETURN_RATE
         \<or> assetsAfter 100000 500000 n - 100000 \<le> 0"
    by blast
  from one two three show ?thesis by blast
qed

section \<open>Properties of the projection engine\<close>

lemma projectionLoop_unfold:
  "projectionLoop s n (int k + 1) ((contributeThenGrow s ^^ k) b) proj =
     proj @ map (\<lambda>j. Math_round ((contributeThenGrow s ^^ j) b)) [Suc k..<Suc (nat n)]"
proof (induction "nat n - k" arbitrary: k proj)
  case 0
  then have "\<not> int k + 1 \<le> n" by linarith
  moreover from 0 have "[Suc k..<Suc (nat n)] = []" by simp
  ultimately show ?case by simp
next
  case (Suc m)
  then have le: "int k + 1 \<le> n" and lt: "k < nat n" by linarith+
  have m: "m = nat n - Suc k" using Suc.hyps(2) by linarith
  have step: "(((contributeThenGrow s ^^ k) b) + s) * (1 + INVESTMENT_RETURN_RATE)
      = (contributeThenGrow s ^^ Suc k) b"
    by (simp add: contributeThenGrow_def INVESTMENT_RETURN_RATE_def)
  have u: "[Suc k..<Suc (nat n)] = Suc k # [Suc (Suc k)..<Suc (nat n)]"
    using lt by (intro upt_conv_Cons) simp
  have "projectionLoop s n (int k + 1) ((contributeThenGrow s ^^ k) b) proj =
      projectionLoop s n (int (Suc k) + 1) ((contributeThenGrow s ^^ Suc k) b)
        (proj @ [Math_round ((contributeThenGrow s ^^ Suc k) b)])"
    using le by (subst projectionLoop.simps) (simp only: step Let_def if_True, simp add: add.commute)
  also have "\<dots> = (proj @ [Math_round ((contributeThenGrow s ^^ Suc k) b)]) @
      map (\<lambda>j. Math_round ((contributeThenGrow s ^^ j) b)) [Suc (Suc k)..<Suc (nat n)]"
    by (rule Suc.hyps(1) [OF m])
  also have "\<dots> = proj @ map (\<lambda>j. Math_round ((contributeThenGrow s ^^ j) b)) [Suc k..<Suc (nat n)]"
    unfolding u by (simp del: upt_Suc)
  finally show ?case .
qed

lemma calculateProjection_series:
  "calculateProjection s n b = map (\<lambda>j. Math_round ((contributeThenGrow s ^^ j) b)) [1..<Suc (nat n)]"
  using projectionLoop_unfold [of s n 0 b "[]"] by (simp add: calculateProjection_def)

lemma fifteenYearLoop_unfold:
  "k \<le> 15 \<Longrightarrow> fifteenYearLoop s (int k + 1) ((contributeThenGrow s ^^ k) b) = (contributeThenGrow s ^^ 15) b"
proof (induction "15 - k" arbitrary: k)
  case 0
  then have k: "k = 15" by linarith
  show ?case unfolding k by (subst fifteenYearLoop.simps) (simp add: PROJECTION_YEARS_def)
next
  case (Suc m)
  then have lt: "k < 15" by linarith
  have m: "m = 15 - Suc k" using Suc.hyps(2) by linarith
  have step: "(((contributeThenGrow s ^^ k) b) + s) * (1 + INVESTMENT_RETURN_RATE)
      = (contributeThenGrow s ^^ Suc k) b"
    by (simp add: contributeThenGrow_def INVESTMENT_RETURN_RATE_def)
  have "fifteenYearLoop s (int k + 1) ((contributeThenGrow s ^^ k) b) =
      fifteenYearLoop s (int (Suc k) + 1) ((contributeThenGrow s ^^ Suc k) b)"
    using lt by (subst fifteenYearLoop.simps) (simp only: step Let_def, simp add: PROJECTION_YEARS_def add.commute)
  also have "\<dots> = (contributeThenGrow s ^^ 15) b"
    using lt by (intro Suc.hyps(1) [OF m]) simp
  finally show ?case .
qed

lemma calculateFifteenYearValue_closed:
  "calculateFifteenYearValue s b = Math_round ((contributeThenGrow s ^^ 15) b)"
  using fifteenYearLoop_unfold [of 0 s b] by (simp add: calculateFifteenYearValue_def)

text \<open>
  Claim C6. With the configured horizon the series has 15 elements, and its last one
  (index \<open>n - 1\<close>) is the value \<open>calculateFifteenYearValue\<close> returns for the same inputs:
  the series rounds what it records, not the running balance.
\<close>

theorem projection_last_is_fifteen_year_value:
  "length (calculateProjection annualSaving PROJECTION_YEARS startingBalance) = nat PROJECTION_YEARS
   \<and> calculateProjection annualSaving PROJECTION_YEARS startingBalance ! (nat PROJECTION_YEARS - 1)
       = calculateFifteenYearValue annualSaving startingBalance
   \<and> last (calculateProjection annualSaving PROJECTION_YEARS startingBalance)
       = calculateFifteenYearValue annualSaving startingBalance"
proof -
  let ?f = "\<lambda>j. Math_round ((contributeThenGrow annualSaving ^^ j) startingBalance)"
  have p: "calculateProjection annualSaving PROJECTION_YEARS startingBalance = map ?f [1..<16]"
    by (simp add: calculateProjection_series PROJECTION_YEARS_def)
  have u: "[1..<16] = [1..<15] @ [15::nat]" by (simp add: upt_rec)
  have l: "last (map ?f [1..<16]) = ?f 15" unfolding u by simp
  have n: "map ?f [1..<16] ! 14 = ?f 15" by (simp del: upt_Suc)
  show ?thesis unfolding p using l n
    by (simp add: calculateFifteenYearValue_closed PROJECTION_YEARS_def del: upt_Suc)
qed

section \<open>Properties of the crossover engine\<close>

lemma assetsInYear_0: "assetsInYear A S 0 = A"
  by (simp add: assetsInYear_def)

lemma assetsInYear_Suc: "assetsInYear A S (Suc k) = assetsInYear A S k * 1.07 + S"
  by (simp add: assetsInYear_def growThenContribute_def)

lemma crossover_step:
  "assetsInYear A S k * (1 + INVESTMENT_RETURN_RATE) + S = assetsInYear A S (Suc k)"
  by (simp add: assetsInYear_Suc INVESTMENT_RETURN_RATE_def)

lemma crossoverLoop_keeps:
  "cy \<noteq> - 1 \<Longrightarrow> fst (crossoverLoop entry E S y a cy data) = cy"
proof (induction entry E S y a cy data rule: crossoverLoop.induct)
  case (1 entry E S y a cy data)
  show ?case
  proof (cases "y \<le> 50")
    case True
    with "1.prems" "1.IH" [OF True refl refl] show ?thesis
      by (subst crossoverLoop.simps) (simp add: Let_def)
  next
    case False
    then show ?thesis by (subst crossoverLoop.simps) simp
  qed
qed

lemma crossoverLoop_next:
  assumes "k < 50"
  shows "crossoverLoop entry E S (int k + 1) (assetsInYear A S k) cy data =
     crossoverLoop entry E S (int (Suc k) + 1) (assetsInYear A S (Suc k))
       (if crosses E A S (Suc k) \<and> cy = - 1 then int (Suc k) else cy)
       (data @ [entry (int (Suc k)) (assetsInYear A S (Suc k))
                  (assetsInYear A S (Suc k) * 0.05) E])"
proof -
  have le: "int k + 1 \<le> 50" using assms by simp
  show ?thesis
    by (subst crossoverLoop.simps)
       (simp only: le if_True Let_def crossover_step crosses_def WITHDRAWAL_RATE_def,
        simp add: algebra_simps)
qed

lemma crossoverLoop_end:
  "crossoverLoop entry E S (int 50 + 1) a cy data = (cy, data)"
  by (subst crossoverLoop.simps) simp

lemma crossoverLoop_first:
  "k \<le> 50 \<Longrightarrow>
     (fst (crossoverLoop entry E S (int k + 1) (assetsInYear A S k) (- 1) data) = - 1
        \<and> (\<forall>j. k < j \<and> j \<le> 50 \<longrightarrow> \<not> crosses E A S j))
     \<or> (\<exists>y. k < y \<and> y \<le> 50
            \<and> fst (crossoverLoop entry E S (int k + 1) (assetsInYear A S k) (- 1) data) = int y
            \<and> crosses E A S y \<and> (\<forall>j. k < j \<and> j < y \<longrightarrow> \<not> crosses E A S j))"
proof (induction "50 - k" arbitrary: k data)
  case 0
  then have k: "k = 50" by simp
  show ?case unfolding k by (simp only: crossoverLoop_end) auto
next
  case (Suc m)
  then have lt: "k < 50" by linarith
  have m: "m = 50 - Suc k" using Suc.hyps(2) by linarith
  have le: "Suc k \<le> 50" using lt by simp
  let ?data = "data @ [entry (int (Suc k)) (assetsInYear A S (Suc k))
                  (assetsInYear A S (Suc k) * 0.05) E]"
  show ?case
  proof (cases "crosses E A S (Suc k)")
    case True
    have "fst (crossoverLoop entry E S (int k + 1) (assetsInYear A S k) (- 1) data) = int (Suc k)"
      unfolding crossoverLoop_next [OF lt] using True
      by (simp only: simp_thms if_True) (rule crossoverLoop_keeps, simp)
    moreover have "\<forall>j. k < j \<and> j < Suc k \<longrightarrow> \<not> crosses E A S j" by auto
    ultimately have "k < Suc k \<and> Suc k \<le> 50
            \<and> fst (crossoverLoop entry E S (int k + 1) (assetsInYear A S k) (- 1) data) = int (Suc k)
            \<and> crosses E A S (Suc k) \<and> (\<forall>j. k < j \<and> j < Suc k \<longrightarrow> \<not> crosses E A S j)"
      using True le by blast
    then show ?thesis by blast
  next
    case False
    have r: "crossoverLoop entry E S (int k + 1) (assetsInYear A S k) (- 1) data =
        crossoverLoop entry E S (int (Suc k) + 1) (assetsInYear A S (Suc k)) (- 1) ?data"
      unfolding crossoverLoop_next [OF lt] using False by (simp only: simp_thms if_False)
    have skip: "k < j \<Longrightarrow> \<not> Suc k < j \<Longrightarrow> \<not> crosses E A S j" for j
      using False by (cases "j = Suc k") auto
    from Suc.hyps(1) [OF m le, of ?data]
    show ?thesis
    proof
      assume h: "fst (crossoverLoop entry E S (int (Suc k) + 1) (assetsInYear A S (Suc k)) (- 1) ?data) = - 1
         \<and> (\<forall>j. Suc k < j \<and> j \<le> 50 \<longrightarrow> \<not> crosses E A S j)"
      then have "\<forall>j. k < j \<and> j \<le> 50 \<longrightarrow> \<not> crosses E A S j"
        using skip by blast
      with h r show ?thesis by simp
    next
      assume "\<exists>y. Suc k < y \<and> y \<le> 50
            \<and> fst (crossoverLoop entry E S (int (Suc k) + 1) (assetsInYear A S (Suc k)) (- 1) ?data) = int y
            \<and> crosses E A S y \<and> (\<forall>j. Suc k < j \<and> j < y \<longrightarrow> \<not> crosses E A S j)"
      then obtain y where y: "Suc k < y" "y \<le> 50"
          "fst (crossoverLoop entry E S (int (Suc k) + 1) (assetsInYear A S (Suc k)) (- 1) ?data) = int y"
          "crosses E A S y" "\<forall>j. Suc k < j \<and> j < y \<longrightarrow> \<not> crosses E A S j"
        by blast
      have "\<forall>j. k < j \<and> j < y \<longrightarrow> \<not> crosses E A S j" using y(5) skip by blast
      with y r have "k < y \<and> y \<le> 50
            \<and> fst (crossoverLoop entry E S (int k + 1) (assetsInYear A S k) (- 1) data) = int y
            \<and> crosses E A S y \<and> (\<forall>j. k < j \<and> j < y \<longrightarrow> \<not> crosses E A S j)"
        by simp
      then show ?thesis by blast
    qed
  qed
qed

lemma years_calculateCrossoverPoint:
  "years (calculateCrossoverPoint E A S) =
     fst (crossoverLoop yearEntry E S 1 A (if A * WITHDRAWAL_RATE \<ge> E then 0 else - 1)
            [yearEntry 0 A (A * WITHDRAWAL_RATE) E])"
  by (simp add: calculateCrossoverPoint_def Let_def split: prod.splits)

lemma crossover_already: "crosses E A S 0 \<Longrightarrow> years (calculateCrossoverPoint E A S) = 0"
  unfolding years_calculateCrossoverPoint
  by (simp add: crosses_def assetsInYear_0 WITHDRAWAL_RATE_def crossoverLoop_keeps)

lemma crossover_later:
  assumes "\<not> crosses E A S 0"
  shows "(years (calculateCrossoverPoint E A S) = - 1
            \<and> (\<forall>j. j \<le> 50 \<longrightarrow> \<not> crosses E A S j))
     \<or> (\<exists>y. 1 \<le> y \<and> y \<le> 50 \<and> years (calculateCrossoverPoint E A S) = int y
            \<and> crosses E A S y \<and> (\<forall>j. j < y \<longrightarrow> \<not> crosses E A S j))"
proof -
  let ?d = "[yearEntry 0 A (A * WITHDRAWAL_RATE) E]"
  have y: "years (calculateCrossoverPoint E A S) =
      fst (crossoverLoop yearEntry E S (int 0 + 1) (assetsInYear A S 0) (- 1) ?d)"
    unfolding years_calculateCrossoverPoint using assms
    by (simp add: crosses_def assetsInYear_0 WITHDRAWAL_RATE_def)
  have zero: "\<not> 0 < j \<Longrightarrow> \<not> crosses E A S j" for j :: nat using assms by simp
  have d: "(years (calculateCrossoverPoint E A S) = - 1
        \<and> (\<forall>j. 0 < j \<and> j \<le> 50 \<longrightarrow> \<not> crosses E A S j))
     \<or> (\<exists>y. 0 < y \<and> y \<le> 50
            \<and> years (calculateCrossoverPoint E A S) = int y
            \<and> crosses E A S y \<and> (\<forall>j. 0 < j \<and> j < y \<longrightarrow> \<not> crosses E A S j))"
    unfolding y by (rule crossoverLoop_first) simp
  from d show ?thesis
  proof
    assume n: "years (calculateCrossoverPoint E A S) = - 1
        \<and> (\<forall>j. 0 < j \<and> j \<le> 50 \<longrightarrow> \<not> crosses E A S j)"
    have "\<forall>j. j \<le> 50 \<longrightarrow> \<not> crosses E A S j"
    proof (intro allI impI)
      fix j :: nat assume j: "j \<le> 50"
      show "\<not> crosses E A S j"
      proof (cases "0 < j")
        case True
        with n j show ?thesis by blast
      next
        case False
        then show ?thesis by (rule zero)
      qed
    qed
    with n show ?thesis by blast
  next
    assume "\<exists>y. 0 < y \<and> y \<le> 50
            \<and> years (calculateCrossoverPoint E A S) = int y
            \<and> crosses E A S y \<and> (\<forall>j. 0 < j \<and> j < y \<longrightarrow> \<not> crosses E A S j)"
    then obtain y where h: "0 < y" "y \<le> 50" "years (calculateCrossoverPoint E A S) = int y"
       "crosses E A S y" "\<forall>j. 0 < j \<and> j < y \<longrightarrow> \<not> crosses E A S j"
      by blast
    have one: "1 \<le> y" using h(1) by simp
    have "\<forall>j. j < y \<longrightarrow> \<not> crosses E A S j"
    proof (intro allI impI)
      fix j :: nat assume j: "j < y"
      show "\<not> crosses E A S j"
      proof (cases "0 < j")
        case True
        with h(5) j show ?thesis by blast
      next
        case False
        then show ?thesis by (rule zero)
      qed
    qed
    with one h(2,3,4) have "1 \<le> y \<and> y \<le> 50 \<and> years (calculateCrossoverPoint E A S) = int y
            \<and> crosses E A S y \<and> (\<forall>j. j < y \<longrightarrow> \<not> crosses E A S j)"
      by blast
    then show ?thesis by blast
  qed
qed


lemma crossoverLoop_data:
  "k \<le> 50 \<Longrightarrow>
     snd (crossoverLoop entry E S (int k + 1) (assetsInYear A S k) cy data) =
       data @ map (\<lambda>j. entry (int j) (assetsInYear A S j) (assetsInYear A S j * 0.05) E)
                  [Suc k..<51]"
proof (induction "50 - k" arbitrary: k cy data)
  case 0
  then have k: "k = 50" by simp
  show ?case unfolding k by (simp only: crossoverLoop_end) simp
next
  case (Suc m)
  then have lt: "k < 50" by linarith
  have m: "m = 50 - Suc k" using Suc.hyps(2) by linarith
  have le: "Suc k \<le> 50" using lt by simp
  have u: "[Suc k..<51] = Suc k # [Suc (Suc k)..<51]"
    using lt by (intro upt_conv_Cons) simp
  show ?case
    unfolding crossoverLoop_next [OF lt] Suc.hyps(1) [OF m le] u by simp
qed

lemma projectionData_calculateCrossoverPoint:
  "projectionData (calculateCrossoverPoint E A S) =
     map (\<lambda>j. yearEntry (int j) (assetsInYear A S j) (assetsInYear A S j * 0.05) E) [0..<51]"
proof -
  have u: "[0..<51] = 0 # [Suc 0..<51]" by (intro upt_conv_Cons) simp
  have "projectionData (calculateCrossoverPoint E A S) =
      snd (crossoverLoop yearEntry E S (int 0 + 1) (assetsInYear A S 0)
             (if A * WITHDRAWAL_RATE \<ge> E then 0 else - 1)
             [yearEntry 0 A (A * WITHDRAWAL_RATE) E])"
    by (simp add: calculateCrossoverPoint_def Let_def assetsInYear_0 split: prod.splits)
  also have "\<dots> = [yearEntry 0 A (A * WITHDRAWAL_RATE) E] @
      map (\<lambda>j. yearEntry (int j) (assetsInYear A S j) (assetsInYear A S j * 0.05) E) [Suc 0..<51]"
    by (rule crossoverLoop_data) simp
  also have "\<dots> = map (\<lambda>j. yearEntry (int j) (assetsInYear A S j) (assetsInYear A S j * 0.05) E) [0..<51]"
    unfolding u by (simp add: assetsInYear_0 WITHDRAWAL_RATE_def del: upt_Suc)
  finally show ?thesis .
qed

text \<open>
  Claim C4. The crossover year is 0 when \<open>currentAssets * 0.05 \<ge> earnedIncome\<close>.
  Otherwise it is the first year \<open>y\<close> of 1..50 in which the passive income of the
  recurrence \<open>assets\<^sub>y = assets\<^sub>y\<^sub>-\<^sub>1 * 1.07 + annualSavings\<close> reaches the earned income: the
  first crossing is kept. When no year of 0..50 crosses, it is -1.
\<close>

theorem calculateCrossoverPoint_years:
  "(currentAssets * 0.05 \<ge> earned \<longrightarrow>
      years (calculateCrossoverPoint earned currentAssets annualSavings) = 0)
   \<and> (\<forall>y. \<not> currentAssets * 0.05 \<ge> earned \<and> 1 \<le> y \<and> y \<le> 50
          \<and> crosses earned currentAssets annualSavings y
          \<and> (\<forall>z. 1 \<le> z \<and> z < y \<longrightarrow> \<not> crosses earned currentAssets annualSavings z)
        \<longrightarrow> years (calculateCrossoverPoint earned currentAssets annualSavings) = int y)
   \<and> ((\<forall>z. z \<le> 50 \<longrightarrow> \<not> crosses earned currentAssets annualSavings z)
        \<longrightarrow> years (calculateCrossoverPoint earned currentAssets annualSavings) = - 1)"
proof (intro conjI allI impI)
  assume "currentAssets * 0.05 \<ge> earned"
  then have "crosses earned currentAssets annualSavings 0"
    by (simp add: crosses_def assetsInYear_0)
  then show "years (calculateCrossoverPoint earned currentAssets annualSavings) = 0"
    by (rule crossover_already)
next
  fix y :: nat
  assume h: "\<not> currentAssets * 0.05 \<ge> earned \<and> 1 \<le> y \<and> y \<le> 50
          \<and> crosses earned currentAssets annualSavings y
          \<and> (\<forall>z. 1 \<le> z \<and> z < y \<longrightarrow> \<not> crosses earned currentAssets annualSavings z)"
  then have n0: "\<not> crosses earned currentAssets annualSavings 0"
    by (simp add: crosses_def assetsInYear_0)
  from crossover_later [OF n0]
  show "years (calculateCrossoverPoint earned currentAssets annualSavings) = int y"
  proof
    assume "years (calculateCrossoverPoint earned currentAssets annualSavings) = - 1
            \<and> (\<forall>j. j \<le> 50 \<longrightarrow> \<not> crosses earned currentAssets annualSavings j)"
    with h show ?thesis by blast
  next
    assume "\<exists>y'. 1 \<le> y' \<and> y' \<le> 50
        \<and> years (calculateCrossoverPoint earned currentAssets annualSavings) = int y'
        \<and> crosses earned currentAssets annualSavings y'
        \<and> (\<forall>j. j < y' \<longrightarrow> \<not> crosses earned currentAssets annualSavings j)"
    then obtain y' where y': "1 \<le> y'"
        "years (calculateCrossoverPoint earned currentAssets annualSavings) = int y'"
        "crosses earned currentAssets annualSavings y'"
        "\<forall>j. j < y' \<longrightarrow> \<not> crosses earned currentAssets annualSavings j"
      by blast
    have "\<not> y' < y" using h y'(1,3) by blast
    moreover have "\<not> y < y'" using h y'(4) by blast
    ultimately have "y' = y" by linarith
    with y'(2) show ?thesis by simp
  qed
next
  assume none: "\<forall>z. z \<le> 50 \<longrightarrow> \<not> crosses earned currentAssets annualSavings z"
  then have n0: "\<not> crosses earned currentAssets annualSavings 0" by simp
  from crossover_later [OF n0] none
  show "years (calculateCrossoverPoint earned currentAssets annualSavings) = - 1"
    by blast
qed

lemma assetsInYear_zero: "assetsInYear 0 0 k = 0"
  by (induction k) (simp_all add: assetsInYear_0 assetsInYear_Suc)

theorem calculateCrossoverPoint_years_witness:
  "years (calculateCrossoverPoint 100 2000 0) = 0
   \<and> years (calculateCrossoverPoint 100 0 2000) = 1
   \<and> years (calculateCrossoverPoint 1 0 0) = - 1"
proof -
  have a: "years (calculateCrossoverPoint 100 2000 0) = 0"
    using calculateCrossoverPoint_years [of 100 2000 0] by simp
  have one: "assetsInYear 0 2000 (Suc 0) = 2000"
    by (simp add: assetsInYear_Suc assetsInYear_0)
  have "\<not> (0::number) * 0.05 \<ge> 100 \<and> 1 \<le> (1::nat) \<and> (1::nat) \<le> 50
          \<and> crosses 100 0 2000 1
          \<and> (\<forall>z. 1 \<le> z \<and> z < (1::nat) \<longrightarrow> \<not> crosses 100 0 2000 z)"
    using one by (simp add: crosses_def)
  with calculateCrossoverPoint_years [of 100 0 2000]
  have "years (calculateCrossoverPoint 100 0 2000) = int 1" by blast
  then have b: "years (calculateCrossoverPoint 100 0 2000) = 1" by simp
  have "\<forall>z. z \<le> 50 \<longrightarrow> \<not> crosses 1 0 0 z"
    by (simp add: crosses_def assetsInYear_zero)
  with calculateCrossoverPoint_years [of 1 0 0]
  have c: "years (calculateCrossoverPoint 1 0 0) = - 1" by blast
  from a b c show ?thesis by blast
qed

lemma assetsInYear_mono:
  "S \<le> S' \<Longrightarrow> assetsInYear A S k \<le> assetsInYear A S' k"
  by (induction k) (simp_all add: assetsInYear_0 assetsInYear_Suc add_mono)

lemma crosses_mono: "S \<le> S' \<Longrightarrow> crosses E A S k \<Longrightarrow> crosses E A S' k"
  using assetsInYear_mono [of S S' A k] by (simp add: crosses_def)

lemma crossover_years_mono:
  assumes "S \<le> S'"
  shows "noLaterThan (years (calculateCrossoverPoint E A S')) (years (calculateCrossoverPoint E A S))"
proof (cases "crosses E A S 0")
  case True
  then have "crosses E A S' 0" by (simp add: crosses_def assetsInYear_0)
  with True show ?thesis by (simp add: crossover_already noLaterThan_def)
next
  case False
  then have f': "\<not> crosses E A S' 0" by (simp add: crosses_def assetsInYear_0)
  from crossover_later [OF False]
  show ?thesis
  proof
    assume "years (calculateCrossoverPoint E A S) = - 1 \<and> (\<forall>j. j \<le> 50 \<longrightarrow> \<not> crosses E A S j)"
    then show ?thesis by (simp add: noLaterThan_def)
  next
    assume "\<exists>y. 1 \<le> y \<and> y \<le> 50 \<and> years (calculateCrossoverPoint E A S) = int y
            \<and> crosses E A S y \<and> (\<forall>j. j < y \<longrightarrow> \<not> crosses E A S j)"
    then obtain y where y: "1 \<le> y" "y \<le> 50" "years (calculateCrossoverPoint E A S) = int y"
        "crosses E A S y" by blast
    have c': "crosses E A S' y" using assms y(4) by (rule crosses_mono)
    from crossover_later [OF f']
    show ?thesis
    proof
      assume "years (calculateCrossoverPoint E A S') = - 1 \<and> (\<forall>j. j \<le> 50 \<longrightarrow> \<not> crosses E A S' j)"
      with c' y(2) show ?thesis by blast
    next
      assume "\<exists>y'. 1 \<le> y' \<and> y' \<le> 50 \<and> years (calculateCrossoverPoint E A S') = int y'
            \<and> crosses E A S' y' \<and> (\<forall>j. j < y' \<longrightarrow> \<not> crosses E A S' j)"
      then obtain y' where y': "1 \<le> y'" "years (calculateCrossoverPoint E A S') = int y'"
          "\<forall>j. j < y' \<longrightarrow> \<not> crosses E A S' j" by blast
      have "\<not> y < y'" using y'(3) c' by blast
      then have "y' \<le> y" by simp
      with y(1,3) y'(1,2) show ?thesis by (simp add: noLaterThan_def)
    qed
  qed
qed

text \<open>
  Claim C10. With earned income and current assets fixed, more annual savings never give
  a later crossover year, -1 (never) counting as later than every year. So for a
  calculation record with \<open>targetSaving \<ge> estimatedSaving\<close>, the investor's crossover year
  of \<open>calculateAllCrossoverPoints\<close> is no later than the worker's.
\<close>

theorem investor_crossover_no_later:
  "(S \<le> S' \<longrightarrow>
      noLaterThan (years (calculateCrossoverPoint E A S')) (years (calculateCrossoverPoint E A S)))
   \<and> (estimatedSaving c \<le> targetSaving c \<longrightarrow>
      noLaterThan (years (investor (calculateAllCrossoverPoints c)))
                  (years (worker (calculateAllCrossoverPoints c))))"
proof (intro conjI impI)
  assume "S \<le> S'"
  then show "noLaterThan (years (calculateCrossoverPoint E A S')) (years (calculateCrossoverPoint E A S))"
    by (rule crossover_years_mono)
next
  assume "estimatedSaving c \<le> targetSaving c"
  then have "(of_int (estimatedSaving c) :: number) \<le> of_int (targetSaving c)" by simp
  then show "noLaterThan (years (investor (calculateAllCrossoverPoints c)))
                  (years (worker (calculateAllCrossoverPoints c)))"
    unfolding calculateAllCrossoverPoints_def by (simp add: crossover_years_mono)
qed

theorem investor_crossover_no_later_witness:
  "noLaterThan (years (calculateCrossoverPoint 100 0 2000)) (years (calculateCrossoverPoint 100 0 0))
   \<and> noLaterThan
        (years (investor (calculateAllCrossoverPoints
           \<lparr>federalTax = 16914, totalTax = 19914, afterTaxIncome = 80086,
            targetSpending = 42543, targetSaving = 37543, estimatedSaving = 10000,
            estimatedSpending = 70086, wealthAccount = 50000\<rparr>)))
        (years (worker (calculateAllCrossoverPoints
           \<lparr>federalTax = 16914, totalTax = 19914, afterTaxIncome = 80086,
            targetSpending = 42543, targetSaving = 37543, estimatedSaving = 10000,
            estimatedSpending = 70086, wealthAccount = 50000\<rparr>)))"
  using investor_crossover_no_later [of 0 2000 100 0
      "\<lparr>federalTax = 16914, totalTax = 19914, afterTaxIncome = 80086,
        targetSpending = 42543, targetSaving = 37543, estimatedSaving = 10000,
        estimatedSpending = 70086, wealthAccount = 50000\<rparr>"]
  by simp

text \<open>
  Claim C7. Every year of \<open>calculateProjection\<close> and of \<open>calculateFifteenYearValue\<close> adds the
  saving and then applies the growth, \<open>(b + s) * 1.07\<close>; every year of
  \<open>calculateCrossoverPoint\<close> applies the growth and then adds the saving, \<open>b * 1.07 + s\<close>. The
  two updates differ by \<open>0.07 * s\<close>.
\<close>

theorem compounding_conventions:
  "calculateProjection s n b = map (\<lambda>k. Math_round ((contributeThenGrow s ^^ k) b)) [1..<Suc (nat n)]
   \<and> calculateFifteenYearValue s b = Math_round ((contributeThenGrow s ^^ 15) b)
   \<and> projectionData (calculateCrossoverPoint E A s) =
       map (\<lambda>k. \<lparr>year = int k, assets = (growThenContribute s ^^ k) A,
                  passiveIncome = (growThenContribute s ^^ k) A * 0.05, earnedIncome = E\<rparr>) [0..<51]
   \<and> contributeThenGrow s b = (b + s) * 1.07
   \<and> growThenContribute s b = b * 1.07 + s
   \<and> contributeThenGrow s b - growThenContribute s b = 0.07 * s"
proof -
  have d: "contributeThenGrow s b - growThenContribute s b = 0.07 * s"
    by (simp add: contributeThenGrow_def growThenContribute_def field_simps)
  have p: "projectionData (calculateCrossoverPoint E A s) =
       map (\<lambda>k. \<lparr>year = int k, assets = (growThenContribute s ^^ k) A,
                  passiveIncome = (growThenContribute s ^^ k) A * 0.05, earnedIncome = E\<rparr>) [0..<51]"
    unfolding projectionData_calculateCrossoverPoint yearEntry_def assetsInYear_def ..
  from d p show ?thesis
    by (simp only: calculateProjection_series calculateFifteenYearValue_closed
          contributeThenGrow_def growThenContribute_def simp_thms)
qed

end
